theory Spec2Isabelle
  imports Main
begin

section \<open>The Hangout state machine: data\<close>

text \<open>
  The development embeds \<^verbatim>\<open>StateMachinePlus.js\<close>. The object built by the constructor
  becomes a record, every method a function that takes the record and returns what the
  method leaves behind: the value returned or thrown, the record after the call, and the
  calls made to the outside (phase functions of the application, \<^verbatim>\<open>submitDelta\<close> of the
  Hangout API), in order.

  A JavaScript value that is a string or \<^verbatim>\<open>undefined\<close> is a \<open>string option\<close>. The shared
  state and the transition table are objects used as dictionaries; both are maps, and a
  missing key reads \<open>None\<close> as it reads \<^verbatim>\<open>undefined\<close> in the source. The transition
  table is created as \<^verbatim>\<open>{}\<close>, so a name it does not hold itself is looked up in
  \<^verbatim>\<open>Object.prototype\<close>; the map \<open>transitions\<close> holds what the table stores itself, and
  the members it inherits are modelled beside it. The shared state is read under the key
  \<^verbatim>\<open>phase\<close> only, which no object inherits.
\<close>

type_synonym shared_state = "string \<rightharpoonup> string"

text \<open>One element of the \<^verbatim>\<open>adds\<close> array of a change notification; the source reads only \<^verbatim>\<open>key\<close>.\<close>

record entry =
  key :: string
  val :: string

text \<open>
  The fields the constructor sets on \<^verbatim>\<open>this\<close>. The scope maps a name to the function
  that \<^verbatim>\<open>this.scope[name]\<close> reads, inherited or not; the type \<open>'f\<close> of these functions is
  left open, since the machine only calls them.
\<close>

record 'f machine =
  localPhase :: "string option"
  scope :: "string \<rightharpoonup> 'f"
  phaseMethodPrefix :: string
  transitions :: "string \<rightharpoonup> string list"
  phaseKey :: string
  setupComplete :: bool

text \<open>
  What a call can throw: the source throws two strings of its own; reading \<^verbatim>\<open>length\<close> of
  \<^verbatim>\<open>undefined\<close> and calling a \<^verbatim>\<open>push\<close> that is not there throw a \<^verbatim>\<open>TypeError\<close>.
\<close>

datatype exn = Message string | TypeError

text \<open>
  Calls that leave the machine: \<^verbatim>\<open>method.call(this.scope, state, isInitialPhase)\<close> and
  \<^verbatim>\<open>gapi.hangout.data.submitDelta(adds, removes)\<close>. What a phase function does once
  called belongs to the application; the model records the call with its arguments and
  takes the function to return without calling back into the machine.
\<close>

datatype 'f effect =
  Invoke 'f shared_state bool
| SubmitDelta shared_state "string list"

type_synonym ('f, 'a) result = "(exn + 'a) \<times> 'f machine \<times> 'f effect list"

definition INITIAL_PHASE :: string where
  "INITIAL_PHASE = ''ksmp_initial_phase''"

text \<open>String conversion of a value, as in \<^verbatim>\<open>prefix + state.phase\<close> and \<^verbatim>\<open>this.transitions[from]\<close>.\<close>

definition js_str :: "string option \<Rightarrow> string" where
  "js_str v = (case v of None \<Rightarrow> ''undefined'' | Some s \<Rightarrow> s)"

text \<open>JavaScript truthiness of a string or \<^verbatim>\<open>undefined\<close>: only a non-empty string is truthy.\<close>

definition truthy :: "string option \<Rightarrow> bool" where
  "truthy v = (case v of None \<Rightarrow> False | Some s \<Rightarrow> s \<noteq> [])"

text \<open>
  The constructor without \<^verbatim>\<open>props\<close>; \<^verbatim>\<open>window\<close> is the global object of the page. A
  property override (\<^verbatim>\<open>scope\<close>, \<^verbatim>\<open>phaseKey\<close>, ...) is a record update of the result;
  the properties below quantify over every record, so over every such override.
  Overriding a method or \<^verbatim>\<open>INITIAL_PHASE\<close> through \<^verbatim>\<open>props\<close> is not modelled.
\<close>

definition StateMachinePlus :: "(string \<rightharpoonup> 'f) \<Rightarrow> 'f machine" where
  "StateMachinePlus window =
     \<lparr> localPhase = Some INITIAL_PHASE,
       scope = window,
       phaseMethodPrefix = ''_phase_'',
       transitions = Map.empty,
       phaseKey = ''phase'',
       setupComplete = False \<rparr>"

section \<open>The transition table\<close>

text \<open>
  What \<^verbatim>\<open>this.transitions[from]\<close> can read: an array that \<^verbatim>\<open>addTransition\<close> stored, or a
  member inherited from \<^verbatim>\<open>Object.prototype\<close>. Of an inherited member the source reads
  \<^verbatim>\<open>push\<close>, which it does not have, \<^verbatim>\<open>length\<close>, kept here (a function has one, the
  object read under \<^verbatim>\<open>__proto__\<close> has none), and elements at an index, which it does
  not have either.
\<close>

datatype slot = Array "string list" | Inherited "nat option"

text \<open>
  The members of \<^verbatim>\<open>Object.prototype\<close>, each with its \<^verbatim>\<open>length\<close>: those of the language
  standard and the legacy accessors that browsers add.
\<close>

definition Object_prototype :: "string \<rightharpoonup> nat option" where
  "Object_prototype = map_of
     [(''constructor'', Some 1),
      (''toString'', Some 0),
      (''toLocaleString'', Some 0),
      (''valueOf'', Some 0),
      (''hasOwnProperty'', Some 1),
      (''isPrototypeOf'', Some 1),
      (''propertyIsEnumerable'', Some 1),
      (''__defineGetter__'', Some 2),
      (''__defineSetter__'', Some 2),
      (''__lookupGetter__'', Some 1),
      (''__lookupSetter__'', Some 1),
      (''__proto__'', None)]"

text \<open>The read \<^verbatim>\<open>this.transitions[from]\<close>: what the table stores comes first.\<close>

definition transitions_get :: "'f machine \<Rightarrow> string \<Rightarrow> slot option" where
  "transitions_get m from =
     (case transitions m from of
        Some l \<Rightarrow> Some (Array l)
      | None \<Rightarrow> map_option Inherited (Object_prototype from))"

text \<open>
  \<^verbatim>\<open>addTransition\<close> appends \<open>to\<close> to the list read under \<open>from\<close>, a new one when the read
  is \<^verbatim>\<open>undefined\<close>, stores it and, unless \<open>from\<close> is the initial phase, calls itself once
  more with the initial phase as source. When the read is an inherited member, it is not
  \<^verbatim>\<open>undefined\<close> and \<^verbatim>\<open>list.push(to)\<close> throws, before anything is stored.
\<close>

function addTransition :: "string \<Rightarrow> string \<Rightarrow> 'f machine \<Rightarrow> (exn + unit) \<times> 'f machine" where
  "addTransition from to m =
     (let list = transitions_get m from;
          list = (if list = None then Some (Array []) else list)
      in case list of
           Some (Array l) \<Rightarrow>
             (let m = m\<lparr>transitions := (transitions m)(from \<mapsto> l @ [to])\<rparr>
              in if from \<noteq> INITIAL_PHASE then addTransition INITIAL_PHASE from m
                 else (Inr (), m))
         | _ \<Rightarrow> (Inl TypeError, m))"
  by pat_completeness auto
termination
  by (relation "measure (\<lambda>(from, to, m). if from = INITIAL_PHASE then 0 else 1)") auto

text \<open>
  The comparison \<^verbatim>\<open>i < validTransitions.length\<close> (false when there is no \<^verbatim>\<open>length\<close>) and
  the read \<^verbatim>\<open>validTransitions[i]\<close> (\<^verbatim>\<open>undefined\<close> outside an array).
\<close>

definition below_length :: "nat \<Rightarrow> slot \<Rightarrow> bool" where
  "below_length i v =
     (case v of
        Array l \<Rightarrow> i < length l
      | Inherited None \<Rightarrow> False
      | Inherited (Some n) \<Rightarrow> i < n)"

definition element :: "slot \<Rightarrow> nat \<Rightarrow> string option" where
  "element v i =
     (case v of
        Array l \<Rightarrow> (if i < length l then Some (l ! i) else None)
      | Inherited _ \<Rightarrow> None)"

text \<open>
  The loop of \<^verbatim>\<open>_validateTransition\<close>:
  \<^verbatim>\<open>for (var i = 0; !valid && i < validTransitions.length; i++) valid = validTransitions[i] == to\<close>.
\<close>

function validate_loop :: "slot \<Rightarrow> string option \<Rightarrow> bool \<Rightarrow> nat \<Rightarrow> bool" where
  "validate_loop validTransitions to valid i =
     (if \<not> valid \<and> below_length i validTransitions
      then validate_loop validTransitions to (element validTransitions i = to) (i + 1)
      else valid)"
  by pat_completeness auto
termination
  by (relation "measure (\<lambda>(validTransitions, to, valid, i).
        (case validTransitions of Array l \<Rightarrow> length l | Inherited None \<Rightarrow> 0 | Inherited (Some n) \<Rightarrow> n) - i)")
     (auto simp: below_length_def split: slot.splits option.splits)

text \<open>
  \<^verbatim>\<open>_validateTransition\<close> reads \<^verbatim>\<open>this.transitions[from]\<close> and then its \<^verbatim>\<open>length\<close> with no
  test in between: when the read is \<^verbatim>\<open>undefined\<close> the read of \<^verbatim>\<open>length\<close> throws.
\<close>

definition validateTransition ::
  "string option \<Rightarrow> string option \<Rightarrow> 'f machine \<Rightarrow> exn + bool" where
  "validateTransition from to m =
     (case transitions_get m (js_str from) of
        None \<Rightarrow> Inl TypeError
      | Some validTransitions \<Rightarrow> Inr (validate_loop validTransitions to False 0))"

section \<open>Advancing the phase\<close>

text \<open>
  \<^verbatim>\<open>nextPhase\<close> fills in the defaults of \<^verbatim>\<open>adds\<close> and \<^verbatim>\<open>removes\<close>, stores the phase under
  the key \<^verbatim>\<open>phase\<close> of \<^verbatim>\<open>adds\<close> and submits the delta.
\<close>

definition nextPhase ::
  "string \<Rightarrow> shared_state option \<Rightarrow> string list option \<Rightarrow> 'f machine \<Rightarrow> ('f, unit) result" where
  "nextPhase phase adds removes m =
     (let adds = (case adds of None \<Rightarrow> Map.empty | Some a \<Rightarrow> a);
          removes = (case removes of None \<Rightarrow> [] | Some r \<Rightarrow> r);
          adds = adds(''phase'' \<mapsto> phase)
      in (Inr (), m, [SubmitDelta adds removes]))"

text \<open>
  \<^verbatim>\<open>_nextLocalPhase\<close> assigns \<^verbatim>\<open>this.localPhase\<close> first, then looks the phase function up
  and throws when there is none.
\<close>

definition nextLocalPhase :: "shared_state \<Rightarrow> bool \<Rightarrow> 'f machine \<Rightarrow> ('f, unit) result" where
  "nextLocalPhase state isInitialPhase m =
     (let m = m\<lparr>localPhase := state ''phase''\<rparr>;
          methodName = phaseMethodPrefix m @ js_str (state ''phase'')
      in case scope m methodName of
           None \<Rightarrow> (Inl (Message (''Undefined phase function: '' @ methodName)), m, [])
         | Some method \<Rightarrow> (Inr (), m, [Invoke method state isInitialPhase]))"

text \<open>
  \<^verbatim>\<open>begin\<close>; the argument \<open>state\<close> is what \<^verbatim>\<open>gapi.hangout.data.getState()\<close> returns, and
  \<open>firstPhase = None\<close> is a call without the argument.
\<close>

definition begin_machine ::
  "string option \<Rightarrow> shared_state \<Rightarrow> 'f machine \<Rightarrow> ('f, unit) result" where
  "begin_machine firstPhase state m =
     (case firstPhase of
        None \<Rightarrow> (Inl (Message ''Must pass a firstPhase to StateMachinePlus.begin(firstPhase)''), m, [])
      | Some phase \<Rightarrow>
          (let inProgress = (truthy (state ''phase'') \<and> Some INITIAL_PHASE \<noteq> state ''phase'')
           in if inProgress then nextLocalPhase state True m
              else nextPhase phase None None m))"

text \<open>
  The test of \<^verbatim>\<open>onStateChange\<close> on the phase of the notification,
  \<^verbatim>\<open>typeof state.phase == "undefined" || !state.phase || state.phase == ""\<close>, and the
  assignment it guards.
\<close>

definition normalise :: "shared_state \<Rightarrow> shared_state" where
  "normalise state =
     (if state ''phase'' = None \<or> \<not> truthy (state ''phase'') \<or> state ''phase'' = Some ''''
      then state(''phase'' \<mapsto> INITIAL_PHASE) else state)"

text \<open>
  \<^verbatim>\<open>onStateChange\<close>: the loop runs over \<^verbatim>\<open>adds\<close> up to the first element whose key is the
  phase key, handles it and breaks. The arguments \<^verbatim>\<open>removes\<close> and \<^verbatim>\<open>metaData\<close> are never
  read and are left out.
\<close>

fun onStateChange :: "entry list \<Rightarrow> shared_state \<Rightarrow> 'f machine \<Rightarrow> ('f, unit) result" where
  "onStateChange [] state m = (Inr (), m, [])"
| "onStateChange (a # adds) state m =
     (if key a = phaseKey m then
        (let state = normalise state
         in case validateTransition (localPhase m) (state ''phase'') m of
              Inl e \<Rightarrow> (Inl e, m, [])
            | Inr valid \<Rightarrow>
                if valid
                then (let isInitialPhase = (localPhase m = Some INITIAL_PHASE)
                      in nextLocalPhase state isInitialPhase m)
                else (Inr (), m, []))
      else onStateChange adds state m)"

section \<open>Vocabulary of the properties\<close>

text \<open>
  A transition \<open>(from, to)\<close> is registered when \<open>to\<close> occurs in the list stored under
  \<open>from\<close>; nothing stored means nothing registered.
\<close>

definition registered :: "'f machine \<Rightarrow> string \<Rightarrow> string \<Rightarrow> bool" where
  "registered m from to = (case transitions m from of None \<Rightarrow> False | Some l \<Rightarrow> to \<in> set l)"

text \<open>
  A setup function that calls \<^verbatim>\<open>addTransition\<close> on each pair of a list, in order; a call
  that throws ends it.
\<close>

fun addTransitions :: "(string \<times> string) list \<Rightarrow> 'f machine \<Rightarrow> (exn + unit) \<times> 'f machine" where
  "addTransitions [] m = (Inr (), m)"
| "addTransitions ((from, to) # calls) m =
     (case addTransition from to m of
        (Inl e, m) \<Rightarrow> (Inl e, m)
      | (Inr _, m) \<Rightarrow> addTransitions calls m)"

text \<open>
  The machine of a three-phase game, used to run the properties on: a scope with one
  function per phase (numbered, to tell them apart), set up with the transitions
  lobby to play and play to score.
\<close>

definition game_scope :: "string \<rightharpoonup> nat" where
  "game_scope = [''_phase_lobby'' \<mapsto> 1, ''_phase_play'' \<mapsto> 2, ''_phase_score'' \<mapsto> 3]"

definition game :: "nat machine" where
  "game = snd (addTransitions [(''lobby'', ''play''), (''play'', ''score'')]
                 (StateMachinePlus game_scope))"

text \<open>A notification that the key \<^verbatim>\<open>phase\<close> changed.\<close>

definition phase_added :: "string \<Rightarrow> entry list" where
  "phase_added v = [\<lparr> key = ''phase'', val = v \<rparr>]"

section \<open>The validation loop\<close>

declare addTransition.simps [simp del]
declare validate_loop.simps [simp del]

lemma validate_loop_scan:
  "validate_loop v to valid i =
     (valid \<or> (\<exists>j. i \<le> j \<and> below_length j v \<and> element v j = to))"
proof (induction v to valid i rule: validate_loop.induct)
  case (1 v to valid i)
  show ?case
  proof (cases "\<not> valid \<and> below_length i v")
    case True
    then have "validate_loop v to valid i = validate_loop v to (element v i = to) (i + 1)"
      by (subst validate_loop.simps) simp
    also have "\<dots> = (element v i = to \<or> (\<exists>j. i + 1 \<le> j \<and> below_length j v \<and> element v j = to))"
      using "1.IH" True by simp
    also have "\<dots> = (\<exists>j. i \<le> j \<and> below_length j v \<and> element v j = to)"
    proof
      assume "element v i = to \<or> (\<exists>j. i + 1 \<le> j \<and> below_length j v \<and> element v j = to)"
      then show "\<exists>j. i \<le> j \<and> below_length j v \<and> element v j = to"
        using True by (metis Suc_eq_plus1 Suc_leD le_refl)
    next
      assume "\<exists>j. i \<le> j \<and> below_length j v \<and> element v j = to"
      then obtain j where j: "i \<le> j" "below_length j v" "element v j = to" by blast
      show "element v i = to \<or> (\<exists>j. i + 1 \<le> j \<and> below_length j v \<and> element v j = to)"
      proof (cases "j = i")
        case True
        with j show ?thesis by simp
      next
        case False
        with j have "i + 1 \<le> j" by simp
        with j show ?thesis by blast
      qed
    qed
    finally show ?thesis using True by simp
  next
    case False
    then have stop: "validate_loop v to valid i = valid"
      by (subst validate_loop.simps) auto
    show ?thesis
    proof (cases valid)
      case True
      with stop show ?thesis by simp
    next
      case unset: False
      with False have "\<not> below_length i v" by simp
      then have "\<not> below_length j v" if "i \<le> j" for j
        using that by (auto simp: below_length_def split: slot.splits option.splits)
      with stop unset show ?thesis by auto
    qed
  qed
qed

lemma validate_loop_member: "validate_loop (Array l) (Some t) False 0 = (t \<in> set l)"
  by (auto simp: validate_loop_scan below_length_def element_def in_set_conv_nth)

lemma validate_loop_inherited: "validate_loop (Inherited n) (Some t) False 0 = False"
  by (simp add: validate_loop_scan element_def)

lemma validateTransition_stored:
  "transitions m from = Some l \<Longrightarrow> validateTransition (Some from) (Some to) m = Inr (to \<in> set l)"
  by (simp add: validateTransition_def transitions_get_def js_str_def validate_loop_member)

lemma validateTransition_inherited:
  "transitions m from = None \<Longrightarrow> Object_prototype from = Some n \<Longrightarrow>
   validateTransition (Some from) (Some to) m = Inr False"
  by (simp add: validateTransition_def transitions_get_def js_str_def validate_loop_inherited)

lemma validateTransition_nothing_stored:
  "transitions m from = None \<Longrightarrow> Object_prototype from = None \<Longrightarrow>
   validateTransition (Some from) to m = Inl TypeError"
  by (simp add: validateTransition_def transitions_get_def js_str_def)

section \<open>Registering transitions\<close>

lemma initial_phase_not_inherited: "Object_prototype INITIAL_PHASE = None"
  by (simp add: Object_prototype_def INITIAL_PHASE_def)

lemma addTransition_inherited:
  "transitions m from = None \<Longrightarrow> Object_prototype from = Some n \<Longrightarrow>
   addTransition from to m = (Inl TypeError, m)"
  by (subst addTransition.simps) (simp add: transitions_get_def)

lemma addTransition_from_initial:
  "addTransition INITIAL_PHASE to m =
     (Inr (), m\<lparr>transitions := (transitions m)(INITIAL_PHASE \<mapsto>
          (case transitions m INITIAL_PHASE of None \<Rightarrow> [] | Some l \<Rightarrow> l) @ [to])\<rparr>)"
  by (subst addTransition.simps)
     (simp add: transitions_get_def initial_phase_not_inherited split: option.splits)

lemma addTransition_from_other:
  assumes "from \<noteq> INITIAL_PHASE" and "transitions m from \<noteq> None \<or> Object_prototype from = None"
  shows "addTransition from to m =
     (Inr (), m\<lparr>transitions := (transitions m)
          (from \<mapsto> (case transitions m from of None \<Rightarrow> [] | Some l \<Rightarrow> l) @ [to],
           INITIAL_PHASE \<mapsto> (case transitions m INITIAL_PHASE of None \<Rightarrow> [] | Some l \<Rightarrow> l) @ [from])\<rparr>)"
  using assms
  by (subst addTransition.simps)
     (auto simp: transitions_get_def addTransition_from_initial split: option.splits)

lemma registered_addTransition_keeps:
  "registered m a b \<Longrightarrow> registered (snd (addTransition from to m)) a b"
proof (cases "transitions m from \<noteq> None \<or> Object_prototype from = None")
  case True
  assume "registered m a b"
  then show ?thesis using True
    by (cases "from = INITIAL_PHASE")
       (auto simp: registered_def addTransition_from_initial addTransition_from_other
             split: option.splits)
next
  case False
  assume "registered m a b"
  then show ?thesis using False by (auto simp: addTransition_inherited)
qed

lemma registered_addTransition_initial:
  "from \<noteq> INITIAL_PHASE \<Longrightarrow> Object_prototype from = None \<Longrightarrow>
   registered (snd (addTransition from to m)) INITIAL_PHASE from"
  by (auto simp: registered_def addTransition_from_other split: option.splits)

lemma addTransition_returns:
  "Object_prototype from = None \<Longrightarrow> fst (addTransition from to m) = Inr ()"
  by (cases "from = INITIAL_PHASE") (simp_all add: addTransition_from_initial addTransition_from_other)

lemma registered_addTransitions_keeps:
  "registered m a b \<Longrightarrow> registered (snd (addTransitions calls m)) a b"
proof (induction calls arbitrary: m)
  case Nil
  then show ?case by simp
next
  case (Cons c calls)
  obtain f t where c: "c = (f, t)" by (cases c)
  obtain r m' where r: "addTransition f t m = (r, m')" by (cases "addTransition f t m")
  have "registered m' a b"
    using registered_addTransition_keeps [OF Cons.prems, of f t] r by simp
  then show ?case using Cons.IH [of m'] c r by (cases r) simp_all
qed

text \<open>
  Where no call has a source among the inherited names, the setup returns normally and
  every source other than the initial phase is registered as a target of the initial
  phase.
\<close>

lemma addTransitions_closure:
  assumes "\<forall>c \<in> set calls. Object_prototype (fst c) = None"
  shows "fst (addTransitions calls m) = Inr ()
       \<and> (\<forall>c \<in> set calls. fst c \<noteq> INITIAL_PHASE \<longrightarrow>
             validateTransition (Some INITIAL_PHASE) (Some (fst c)) (snd (addTransitions calls m)) = Inr True)"
  using assms
proof (induction calls arbitrary: m)
  case Nil
  then show ?case by simp
next
  case (Cons c calls)
  obtain f t where c: "c = (f, t)" by (cases c)
  have plain: "Object_prototype f = None" using Cons.prems c by simp
  obtain m' where r: "addTransition f t m = (Inr (), m')"
    using addTransition_returns [OF plain, of t m] by (cases "addTransition f t m") auto
  have step: "addTransitions ((f, t) # calls) m = addTransitions calls m'"
    using r by simp
  have IH: "fst (addTransitions calls m') = Inr ()
       \<and> (\<forall>c \<in> set calls. fst c \<noteq> INITIAL_PHASE \<longrightarrow>
             validateTransition (Some INITIAL_PHASE) (Some (fst c)) (snd (addTransitions calls m')) = Inr True)"
    using Cons.IH [of m'] Cons.prems by simp
  have first: "validateTransition (Some INITIAL_PHASE) (Some f) (snd (addTransitions calls m')) = Inr True"
    if "f \<noteq> INITIAL_PHASE"
  proof -
    have "registered m' INITIAL_PHASE f"
      using registered_addTransition_initial [OF that plain, of t m] r by simp
    then have "registered (snd (addTransitions calls m')) INITIAL_PHASE f"
      by (rule registered_addTransitions_keeps)
    then show ?thesis
      by (auto simp: registered_def validateTransition_stored split: option.splits)
  qed
  show ?case unfolding c step using IH first by simp
qed

lemma validateTransition_registered:
  "registered m from to \<Longrightarrow> validateTransition (Some from) (Some to) m = Inr True"
  by (auto simp: registered_def validateTransition_stored split: option.splits)

section \<open>The game machine\<close>

lemma game_eq:
  "game = (StateMachinePlus game_scope)
     \<lparr>transitions := [''lobby'' \<mapsto> [''play''], INITIAL_PHASE \<mapsto> [''lobby'', ''play''],
                      ''play'' \<mapsto> [''score'']]\<rparr>"
  by (simp add: game_def StateMachinePlus_def addTransition_from_other Object_prototype_def
        INITIAL_PHASE_def fun_upd_twist)

lemma game_transitions:
  "transitions game = [''lobby'' \<mapsto> [''play''], INITIAL_PHASE \<mapsto> [''lobby'', ''play''],
                       ''play'' \<mapsto> [''score'']]"
  by (simp add: game_eq)

lemma game_fields:
  "localPhase game = Some INITIAL_PHASE" "scope game = game_scope"
  "phaseMethodPrefix game = ''_phase_''" "phaseKey game = ''phase''"
  by (simp_all add: game_eq StateMachinePlus_def)

lemma game_initial_targets: "transitions game INITIAL_PHASE = Some [''lobby'', ''play'']"
  by (simp add: game_transitions INITIAL_PHASE_def)

section \<open>Sources among the inherited names\<close>

text \<open>
  C4 (transition closure). After a sequence of \<^verbatim>\<open>addTransition\<close> calls none of whose
  sources is an inherited name, every source other than the initial phase is a valid
  target from the initial phase (\<open>addTransitions_closure\<close>). A call whose source is an
  inherited name is outside this: in the game, \<^verbatim>\<open>addTransition("constructor", "play")\<close>
  throws and leaves the table as it was, and \<^verbatim>\<open>_validateTransition\<close> from the initial phase
  to \<^verbatim>\<open>constructor\<close> then returns false.
\<close>

theorem inherited_source_not_closed:
  "addTransition ''constructor'' ''play'' game = (Inl TypeError, game)
   \<and> validateTransition (Some INITIAL_PHASE) (Some ''constructor'')
         (snd (addTransition ''constructor'' ''play'' game)) = Inr False"
proof -
  have "transitions game ''constructor'' = None"
    by (simp add: game_transitions INITIAL_PHASE_def)
  moreover have "Object_prototype ''constructor'' = Some (Some 1)"
    by (simp add: Object_prototype_def)
  ultimately have "addTransition ''constructor'' ''play'' game = (Inl TypeError, game)"
    by (rule addTransition_inherited)
  moreover have "validateTransition (Some INITIAL_PHASE) (Some ''constructor'') game = Inr False"
    by (simp add: validateTransition_stored [OF game_initial_targets])
  ultimately show ?thesis by simp
qed

section \<open>Delivering notifications\<close>

lemma normalise_present: "state ''phase'' = Some Q \<Longrightarrow> Q \<noteq> [] \<Longrightarrow> normalise state = state"
  by (simp add: normalise_def truthy_def)

lemma normalise_missing:
  "state ''phase'' = None \<or> state ''phase'' = Some [] \<Longrightarrow>
   normalise state = state(''phase'' \<mapsto> INITIAL_PHASE)"
  by (auto simp: normalise_def truthy_def)

lemma nextLocalPhase_resolved:
  "state ''phase'' = Some Q \<Longrightarrow> scope m (phaseMethodPrefix m @ Q) = Some handler \<Longrightarrow>
   nextLocalPhase state isInitialPhase m =
     (Inr (), m\<lparr>localPhase := Some Q\<rparr>, [Invoke handler state isInitialPhase])"
  by (simp add: nextLocalPhase_def js_str_def)

lemma nextLocalPhase_unresolved:
  "scope m (phaseMethodPrefix m @ js_str (state ''phase'')) = None \<Longrightarrow>
   nextLocalPhase state isInitialPhase m =
     (Inl (Message (''Undefined phase function: '' @ phaseMethodPrefix m @ js_str (state ''phase''))),
      m\<lparr>localPhase := state ''phase''\<rparr>, [])"
  by (simp add: nextLocalPhase_def)

text \<open>The loop of \<^verbatim>\<open>onStateChange\<close> handles the first element with the phase key and no other.\<close>

lemma onStateChange_phase_key:
  "phaseKey m \<in> key ` set adds \<Longrightarrow>
   onStateChange adds state m =
     (case validateTransition (localPhase m) (normalise state ''phase'') m of
        Inl e \<Rightarrow> (Inl e, m, [])
      | Inr valid \<Rightarrow>
          if valid then nextLocalPhase (normalise state) (localPhase m = Some INITIAL_PHASE) m
          else (Inr (), m, []))"
proof (induction adds)
  case Nil
  then show ?case by simp
next
  case (Cons a adds)
  show ?case
  proof (cases "key a = phaseKey m")
    case True
    then show ?thesis by (simp add: Let_def split: sum.splits)
  next
    case False
    with Cons.prems have "phaseKey m \<in> key ` set adds" by auto
    with Cons.IH False show ?thesis by simp
  qed
qed

lemma onStateChange_other_keys:
  "\<forall>a \<in> set adds. key a \<noteq> phaseKey m \<Longrightarrow> onStateChange adds state m = (Inr (), m, [])"
  by (induction adds) auto

lemma validateTransition_unregistered:
  "\<not> registered m from to \<Longrightarrow>
   validateTransition (Some from) (Some to) m =
     (if transitions m from = None \<and> Object_prototype from = None then Inl TypeError
      else Inr False)"
  by (auto simp: registered_def validateTransition_stored validateTransition_nothing_stored
        validateTransition_inherited split: option.splits)

lemma onStateChange_accepts:
  assumes "localPhase m = Some P" and "registered m P Q"
    and "phaseKey m \<in> key ` set adds" and "normalise state ''phase'' = Some Q"
  shows "onStateChange adds state m = nextLocalPhase (normalise state) (P = INITIAL_PHASE) m"
  using assms by (simp add: onStateChange_phase_key validateTransition_registered)

lemma onStateChange_rejects:
  assumes "localPhase m = Some Q" and "\<not> registered m Q P"
    and "phaseKey m \<in> key ` set adds" and "normalise state ''phase'' = Some P"
  shows "onStateChange adds state m =
           (if transitions m Q = None \<and> Object_prototype Q = None then Inl TypeError
            else Inr (), m, [])"
  using assms by (simp add: onStateChange_phase_key validateTransition_unregistered)

section \<open>Duplicate and stale notifications\<close>

text \<open>
  The phase a notification reports is the one \<^verbatim>\<open>onStateChange\<close> reads after its own
  normalisation: the field \<^verbatim>\<open>state.phase\<close> when it holds a non-empty string, the initial
  phase when it is missing or empty.

  C1 (idempotent delivery). A machine at phase \<open>P\<close>, with \<open>(P, Q)\<close> registered and \<open>(Q, Q)\<close>
  not, receives twice a notification with the phase key that reports \<open>Q\<close>; the scope holds
  a function for \<open>Q\<close>. The first delivery returns normally, moves the machine to \<open>Q\<close> and
  makes exactly one call, to that function. The second delivery leaves the machine at
  \<open>Q\<close> and makes no call. It throws out of the validation when the table neither stores
  nor inherits anything under \<open>Q\<close>, and returns normally otherwise.
\<close>

theorem idempotent_delivery:
  assumes "localPhase m = Some P" and "registered m P Q" and "\<not> registered m Q Q"
    and "phaseKey m \<in> key ` set adds" and "normalise state ''phase'' = Some Q"
    and "scope m (phaseMethodPrefix m @ Q) = Some handler"
  shows "onStateChange adds state m =
           (Inr (), m\<lparr>localPhase := Some Q\<rparr>,
            [Invoke handler (normalise state) (P = INITIAL_PHASE)])
       \<and> onStateChange adds state (m\<lparr>localPhase := Some Q\<rparr>) =
           (if transitions m Q = None \<and> Object_prototype Q = None then Inl TypeError
            else Inr (),
            m\<lparr>localPhase := Some Q\<rparr>, [])"
proof
  show "onStateChange adds state m =
          (Inr (), m\<lparr>localPhase := Some Q\<rparr>,
           [Invoke handler (normalise state) (P = INITIAL_PHASE)])"
    using assms by (simp add: onStateChange_accepts nextLocalPhase_resolved)
next
  let ?m = "m\<lparr>localPhase := Some Q\<rparr>"
  have "localPhase ?m = Some Q" by simp
  moreover have "\<not> registered ?m Q Q" using assms(3) by (simp add: registered_def)
  moreover have "phaseKey ?m \<in> key ` set adds" using assms(4) by simp
  ultimately have "onStateChange adds state ?m =
      (if transitions ?m Q = None \<and> Object_prototype Q = None then Inl TypeError
       else Inr (), ?m, [])"
    using assms(5) by (rule onStateChange_rejects)
  then show "onStateChange adds state ?m =
      (if transitions m Q = None \<and> Object_prototype Q = None then Inl TypeError
       else Inr (), ?m, [])"
    by simp
qed

theorem idempotent_delivery_witness:
  "onStateChange (phase_added ''play'') [''phase'' \<mapsto> ''play''] (game\<lparr>localPhase := Some ''lobby''\<rparr>) =
     (Inr (), game\<lparr>localPhase := Some ''play''\<rparr>, [Invoke 2 [''phase'' \<mapsto> ''play''] False])
   \<and> onStateChange (phase_added ''play'') [''phase'' \<mapsto> ''play''] (game\<lparr>localPhase := Some ''play''\<rparr>) =
     (Inr (), game\<lparr>localPhase := Some ''play''\<rparr>, [])"
  using idempotent_delivery [of "game\<lparr>localPhase := Some ''lobby''\<rparr>" "''lobby''" "''play''"
      "phase_added ''play''" "[''phase'' \<mapsto> ''play'']" 2]
  by (simp add: registered_def game_transitions game_fields game_scope_def phase_added_def
        normalise_present INITIAL_PHASE_def)

text \<open>
  C3 (stale rejection). A machine at phase \<open>Q\<close>, however it got there, receives a
  notification with the phase key that reports a phase \<open>P\<close> with \<open>(Q, P)\<close> not registered.
  The machine is left as it was, at \<open>Q\<close>, and no call is made. The delivery throws out
  of the validation when the table neither stores nor inherits anything under \<open>Q\<close>, and
  returns normally otherwise.
\<close>

theorem stale_rejection:
  assumes "localPhase m = Some Q" and "\<not> registered m Q P"
    and "phaseKey m \<in> key ` set adds" and "normalise state ''phase'' = Some P"
  shows "onStateChange adds state m =
           (if transitions m Q = None \<and> Object_prototype Q = None then Inl TypeError
            else Inr (), m, [])"
  using assms by (rule onStateChange_rejects)

theorem stale_rejection_witness:
  "onStateChange (phase_added ''lobby'') [''phase'' \<mapsto> ''lobby''] (game\<lparr>localPhase := Some ''play''\<rparr>) =
     (Inr (), game\<lparr>localPhase := Some ''play''\<rparr>, [])"
  using stale_rejection [of "game\<lparr>localPhase := Some ''play''\<rparr>" "''play''" "''lobby''"
      "phase_added ''lobby''" "[''phase'' \<mapsto> ''lobby'']"]
  by (simp add: registered_def game_transitions game_fields phase_added_def
        normalise_present INITIAL_PHASE_def)

text \<open>
  C8 (irrelevant keys). A notification none of whose added keys is the phase key returns
  normally, leaves the machine as it was and makes no call, whatever the state it carries
  and whatever the table holds: the validation, which throws on a source with nothing
  to read under it, is not run.
\<close>

theorem irrelevant_keys_ignored:
  assumes "\<forall>a \<in> set adds. key a \<noteq> phaseKey m"
  shows "onStateChange adds state m = (Inr (), m, [])"
  using assms by (rule onStateChange_other_keys)

theorem irrelevant_keys_ignored_witness:
  "onStateChange [\<lparr>key = ''points'', val = ''10''\<rparr>] [''phase'' \<mapsto> ''play'', ''points'' \<mapsto> ''10'']
     (game\<lparr>localPhase := Some ''score''\<rparr>) = (Inr (), game\<lparr>localPhase := Some ''score''\<rparr>, [])"
  using irrelevant_keys_ignored [of "[\<lparr>key = ''points'', val = ''10''\<rparr>]"
      "game\<lparr>localPhase := Some ''score''\<rparr>" "[''phase'' \<mapsto> ''play'', ''points'' \<mapsto> ''10'']"]
  by (simp add: game_fields)

section \<open>Validation of a source with nothing stored\<close>

text \<open>
  C2 (validity check). Where a list is stored under \<open>from\<close>, the check returns whether
  \<open>to\<close> occurs in it (\<open>validateTransition_stored\<close>). Where nothing is stored and the
  name is not an inherited one, it does not return false: it throws
  (\<open>validateTransition_nothing_stored\<close>). In the game, nothing is stored under the last
  phase, score, and validating a transition from it throws.
\<close>

theorem unregistered_source_throws:
  "validateTransition (Some ''score'') (Some ''play'') game = Inl TypeError"
  by (simp add: validateTransition_nothing_stored game_transitions Object_prototype_def
        INITIAL_PHASE_def)

section \<open>Starting the machine\<close>

lemma begin_machine_in_progress:
  "truthy (state ''phase'') \<Longrightarrow> state ''phase'' \<noteq> Some INITIAL_PHASE \<Longrightarrow>
   begin_machine (Some X) state m = nextLocalPhase state True m"
  by (auto simp: begin_machine_def)

lemma begin_machine_not_started:
  "\<not> truthy (state ''phase'') \<or> state ''phase'' = Some INITIAL_PHASE \<Longrightarrow>
   begin_machine (Some X) state m = nextPhase X None None m"
  by (auto simp: begin_machine_def)

text \<open>
  C5 (fast-forward). The shared state read by \<^verbatim>\<open>begin\<close> holds a phase \<open>Y\<close> that is a
  non-empty string other than the initial phase (an empty string is falsy in the test of
  the source, like a missing field), and the scope holds a function for \<open>Y\<close>. Then
  \<^verbatim>\<open>begin\<close> with any first phase returns normally, sets the machine to \<open>Y\<close> and makes one
  call: that function, with the state and \<^verbatim>\<open>true\<close>. Nothing is submitted to the shared
  state.
\<close>

theorem fast_forward:
  assumes "state ''phase'' = Some Y" and "Y \<noteq> []" and "Y \<noteq> INITIAL_PHASE"
    and "scope m (phaseMethodPrefix m @ Y) = Some handler"
  shows "begin_machine (Some X) state m =
           (Inr (), m\<lparr>localPhase := Some Y\<rparr>, [Invoke handler state True])"
proof -
  have "begin_machine (Some X) state m = nextLocalPhase state True m"
    using assms(1-3) by (intro begin_machine_in_progress) (simp_all add: truthy_def)
  then show ?thesis using assms(1,4) by (simp add: nextLocalPhase_resolved)
qed

theorem fast_forward_witness:
  "begin_machine (Some ''lobby'') [''phase'' \<mapsto> ''play''] game =
     (Inr (), game\<lparr>localPhase := Some ''play''\<rparr>, [Invoke 2 [''phase'' \<mapsto> ''play''] True])"
  using fast_forward [of "[''phase'' \<mapsto> ''play'']" "''play''" game 2 "''lobby''"]
  by (simp add: game_fields game_scope_def INITIAL_PHASE_def)

text \<open>
  C6 (fresh start). The shared state read by \<^verbatim>\<open>begin\<close> holds no phase, an empty one or
  the initial phase. Then \<^verbatim>\<open>begin\<close> with first phase \<open>X\<close> returns normally, leaves the
  machine as it was and makes one call: it submits the delta that adds \<open>X\<close> under the key
  \<^verbatim>\<open>phase\<close> and removes nothing. No phase function is called.
\<close>

theorem fresh_start:
  assumes "state ''phase'' = None \<or> state ''phase'' = Some [] \<or> state ''phase'' = Some INITIAL_PHASE"
  shows "begin_machine (Some X) state m = (Inr (), m, [SubmitDelta [''phase'' \<mapsto> X] []])"
proof -
  have "\<not> truthy (state ''phase'') \<or> state ''phase'' = Some INITIAL_PHASE"
    using assms by (auto simp: truthy_def)
  then have "begin_machine (Some X) state m = nextPhase X None None m"
    by (rule begin_machine_not_started)
  then show ?thesis by (simp add: nextPhase_def)
qed

theorem fresh_start_witness:
  "begin_machine (Some ''lobby'') Map.empty game = (Inr (), game, [SubmitDelta [''phase'' \<mapsto> ''lobby''] []])"
  using fresh_start [of Map.empty "''lobby''" game] by simp

text \<open>
  C7 (global advance). \<^verbatim>\<open>nextPhase\<close> returns normally, leaves the machine as it was, local
  phase included, and makes one call: it submits the given additions, with the phase
  stored under the key \<^verbatim>\<open>phase\<close>, and the given removals. No phase function is called.
\<close>

theorem nextPhase_broadcast_only:
  "nextPhase phase adds removes m =
     (Inr (), m,
      [SubmitDelta ((case adds of None \<Rightarrow> Map.empty | Some a \<Rightarrow> a)(''phase'' \<mapsto> phase))
                   (case removes of None \<Rightarrow> [] | Some r \<Rightarrow> r)])"
  by (simp add: nextPhase_def)

section \<open>Configuration errors\<close>

text \<open>
  C9 (errors are thrown to the caller). When the scope holds no function for the phase of
  the state, \<^verbatim>\<open>_nextLocalPhase\<close> throws its message; so does \<^verbatim>\<open>onStateChange\<close> for a
  notification whose transition it has validated, and so does \<^verbatim>\<open>begin\<close> when it
  fast-forwards. \<^verbatim>\<open>begin\<close> without a first phase throws its own message.
\<close>

theorem configuration_errors_raised:
  "(scope m (phaseMethodPrefix m @ js_str (state ''phase'')) = None \<longrightarrow>
      fst (nextLocalPhase state isInitialPhase m) =
        Inl (Message (''Undefined phase function: '' @ phaseMethodPrefix m @ js_str (state ''phase''))))
   \<and> (phaseKey m \<in> key ` set adds
        \<and> validateTransition (localPhase m) (Some Q) m = Inr True
        \<and> normalise state ''phase'' = Some Q
        \<and> scope m (phaseMethodPrefix m @ Q) = None \<longrightarrow>
      fst (onStateChange adds state m) =
        Inl (Message (''Undefined phase function: '' @ phaseMethodPrefix m @ Q)))
   \<and> (state ''phase'' = Some Y \<and> Y \<noteq> [] \<and> Y \<noteq> INITIAL_PHASE
        \<and> scope m (phaseMethodPrefix m @ Y) = None \<longrightarrow>
      fst (begin_machine (Some X) state m) =
        Inl (Message (''Undefined phase function: '' @ phaseMethodPrefix m @ Y)))
   \<and> fst (begin_machine None state m) =
        Inl (Message ''Must pass a firstPhase to StateMachinePlus.begin(firstPhase)'')"
proof (intro conjI impI)
  assume "scope m (phaseMethodPrefix m @ js_str (state ''phase'')) = None"
  then show "fst (nextLocalPhase state isInitialPhase m) =
      Inl (Message (''Undefined phase function: '' @ phaseMethodPrefix m @ js_str (state ''phase'')))"
    by (simp add: nextLocalPhase_unresolved)
next
  assume a: "phaseKey m \<in> key ` set adds
        \<and> validateTransition (localPhase m) (Some Q) m = Inr True
        \<and> normalise state ''phase'' = Some Q
        \<and> scope m (phaseMethodPrefix m @ Q) = None"
  then have "onStateChange adds state m =
      nextLocalPhase (normalise state) (localPhase m = Some INITIAL_PHASE) m"
    by (simp add: onStateChange_phase_key)
  moreover have "scope m (phaseMethodPrefix m @ js_str (normalise state ''phase'')) = None"
    using a by (simp add: js_str_def)
  ultimately show "fst (onStateChange adds state m) =
      Inl (Message (''Undefined phase function: '' @ phaseMethodPrefix m @ Q))"
    using a by (simp add: nextLocalPhase_unresolved js_str_def)
next
  assume a: "state ''phase'' = Some Y \<and> Y \<noteq> [] \<and> Y \<noteq> INITIAL_PHASE
        \<and> scope m (phaseMethodPrefix m @ Y) = None"
  then have "begin_machine (Some X) state m = nextLocalPhase state True m"
    by (intro begin_machine_in_progress) (simp_all add: truthy_def)
  moreover have "scope m (phaseMethodPrefix m @ js_str (state ''phase'')) = None"
    using a by (simp add: js_str_def)
  ultimately show "fst (begin_machine (Some X) state m) =
      Inl (Message (''Undefined phase function: '' @ phaseMethodPrefix m @ Y))"
    using a by (simp add: nextLocalPhase_unresolved js_str_def)
next
  show "fst (begin_machine None state m) =
      Inl (Message ''Must pass a firstPhase to StateMachinePlus.begin(firstPhase)'')"
    by (simp add: begin_machine_def)
qed

theorem configuration_errors_raised_witness:
  "fst (nextLocalPhase [''phase'' \<mapsto> ''lobby''] True (game\<lparr>scope := Map.empty\<rparr>)) =
     Inl (Message ''Undefined phase function: _phase_lobby'')
   \<and> fst (onStateChange (phase_added ''lobby'') [''phase'' \<mapsto> ''lobby''] (game\<lparr>scope := Map.empty\<rparr>)) =
     Inl (Message ''Undefined phase function: _phase_lobby'')
   \<and> fst (begin_machine (Some ''lobby'') [''phase'' \<mapsto> ''play''] (game\<lparr>scope := Map.empty\<rparr>)) =
     Inl (Message ''Undefined phase function: _phase_play'')
   \<and> fst (begin_machine None [''phase'' \<mapsto> ''play''] (game\<lparr>scope := Map.empty\<rparr>)) =
     Inl (Message ''Must pass a firstPhase to StateMachinePlus.begin(firstPhase)'')"
proof -
  let ?m = "game\<lparr>scope := Map.empty\<rparr>"
  have "transitions ?m INITIAL_PHASE = Some [''lobby'', ''play'']"
    by (simp add: game_initial_targets)
  then have v: "validateTransition (localPhase ?m) (Some ''lobby'') ?m = Inr True"
    by (simp add: game_fields validateTransition_stored)
  show ?thesis
    using v configuration_errors_raised [of ?m "[''phase'' \<mapsto> ''lobby'']" True
        "phase_added ''lobby''" "''lobby''" "''play''" "''lobby''"]
      configuration_errors_raised [of ?m "[''phase'' \<mapsto> ''play'']" True
        "phase_added ''lobby''" "''lobby''" "''play''" "''lobby''"]
    by (simp add: game_fields phase_added_def normalise_present js_str_def INITIAL_PHASE_def)
qed

text \<open>
  C10 (the advance is not atomic). When the scope holds no function for the phase \<open>Q\<close> of
  the state, \<^verbatim>\<open>_nextLocalPhase\<close> throws, and the machine it leaves behind is already at
  \<open>Q\<close>; no phase function has been called.
\<close>

theorem advance_not_atomic:
  assumes "state ''phase'' = Some Q" and "scope m (phaseMethodPrefix m @ Q) = None"
  shows "nextLocalPhase state isInitialPhase m =
           (Inl (Message (''Undefined phase function: '' @ phaseMethodPrefix m @ Q)),
            m\<lparr>localPhase := Some Q\<rparr>, [])"
  using assms nextLocalPhase_unresolved [of m state isInitialPhase] by (simp add: js_str_def)

theorem advance_not_atomic_witness:
  "nextLocalPhase [''phase'' \<mapsto> ''play''] False (game\<lparr>scope := Map.empty\<rparr>) =
     (Inl (Message ''Undefined phase function: _phase_play''),
      game\<lparr>scope := Map.empty, localPhase := Some ''play''\<rparr>, [])"
  using advance_not_atomic [of "[''phase'' \<mapsto> ''play'']" "''play''" "game\<lparr>scope := Map.empty\<rparr>" False]
  by (simp add: game_fields)

section \<open>A game from start to end\<close>

text \<open>
  The three-phase game, step by step: the start on an empty shared state, the machine's own
  notification, the advance to play and its notification, a duplicate of it, the advance
  to score, and a duplicate of that one, which throws since there is nothing to read under
  score.
\<close>

lemma game_scenario:
  "begin_machine (Some ''lobby'') Map.empty game =
     (Inr (), game, [SubmitDelta [''phase'' \<mapsto> ''lobby''] []])"
  "onStateChange (phase_added ''lobby'') [''phase'' \<mapsto> ''lobby''] game =
     (Inr (), game\<lparr>localPhase := Some ''lobby''\<rparr>, [Invoke 1 [''phase'' \<mapsto> ''lobby''] True])"
  "nextPhase ''play'' None None (game\<lparr>localPhase := Some ''lobby''\<rparr>) =
     (Inr (), game\<lparr>localPhase := Some ''lobby''\<rparr>, [SubmitDelta [''phase'' \<mapsto> ''play''] []])"
  "onStateChange (phase_added ''play'') [''phase'' \<mapsto> ''play''] (game\<lparr>localPhase := Some ''lobby''\<rparr>) =
     (Inr (), game\<lparr>localPhase := Some ''play''\<rparr>, [Invoke 2 [''phase'' \<mapsto> ''play''] False])"
  "onStateChange (phase_added ''play'') [''phase'' \<mapsto> ''play''] (game\<lparr>localPhase := Some ''play''\<rparr>) =
     (Inr (), game\<lparr>localPhase := Some ''play''\<rparr>, [])"
  "onStateChange (phase_added ''score'') [''phase'' \<mapsto> ''score''] (game\<lparr>localPhase := Some ''play''\<rparr>) =
     (Inr (), game\<lparr>localPhase := Some ''score''\<rparr>, [Invoke 3 [''phase'' \<mapsto> ''score''] False])"
  "onStateChange (phase_added ''score'') [''phase'' \<mapsto> ''score''] (game\<lparr>localPhase := Some ''score''\<rparr>) =
     (Inl TypeError, game\<lparr>localPhase := Some ''score''\<rparr>, [])"
  by (simp_all add: begin_machine_def truthy_def nextPhase_def phase_added_def game_fields
        game_transitions normalise_present nextLocalPhase_def js_str_def game_scope_def
        validateTransition_def transitions_get_def validate_loop_member Object_prototype_def
        INITIAL_PHASE_def)

end
